theory Spec2Isabelle
  imports Main
begin

section \<open>Exceptions\<close>

text \<open>
  The exceptions that the code of \<^verbatim>\<open>ray_server.py\<close> names or lets through.
  \<open>OtherError\<close> stands for any exception that is none of the three named ones.
\<close>

datatype py_exception = AttributeError | OSError | KeyboardInterrupt | OtherError string

section \<open>The platform and the probe socket\<close>

text \<open>
  What the host decides for the socket calls of \<^verbatim>\<open>_reserve_port\<close>:
  whether \<^verbatim>\<open>socket.socket(AF_INET6, SOCK_STREAM)\<close> fails, whether the
  \<^verbatim>\<open>socket\<close> module has the attribute \<^verbatim>\<open>SO_REUSEPORT\<close>,
  whether the kernel refuses \<^verbatim>\<open>setsockopt\<close>, which ports are taken,
  and the port the kernel hands out for a bind to port 0.
\<close>

record platform =
  socket_fails :: bool
  has_SO_REUSEPORT :: bool
  setsockopt_fails :: bool
  used_ports :: "nat list"
  ephemeral_port :: nat

record sock =
  so_reuseport :: bool
  bound :: "nat option"
  sock_closed :: bool

definition socket_socket :: "platform \<Rightarrow> py_exception + sock" where
  "socket_socket pf =
     (if socket_fails pf then Inl OSError
      else Inr \<lparr>so_reuseport = False, bound = None, sock_closed = False\<rparr>)"

text \<open>
  \<^verbatim>\<open>sock.setsockopt(socket.SOL_SOCKET, socket.SO_REUSEPORT, 1)\<close>: the arguments
  are evaluated first, so a module without the attribute raises AttributeError before
  the call; the call itself raises OSError when the kernel refuses the option.
\<close>

definition setsockopt_SO_REUSEPORT :: "platform \<Rightarrow> sock \<Rightarrow> py_exception + sock" where
  "setsockopt_SO_REUSEPORT pf s =
     (if \<not> has_SO_REUSEPORT pf then Inl AttributeError
      else if setsockopt_fails pf then Inl OSError
      else Inr (s\<lparr>so_reuseport := True\<rparr>))"

text \<open>
  \<^verbatim>\<open>sock.bind(('', p))\<close>: port 0 asks the kernel for an unused port; any
  other port is bound when it is free and raises OSError when it is taken.
\<close>

definition sock_bind :: "platform \<Rightarrow> nat \<Rightarrow> sock \<Rightarrow> py_exception + sock" where
  "sock_bind pf p s =
     (if p = 0 then Inr (s\<lparr>bound := Some (ephemeral_port pf)\<rparr>)
      else if p \<in> set (used_ports pf) then Inl OSError
      else Inr (s\<lparr>bound := Some p\<rparr>))"

text \<open>\<^verbatim>\<open>sock.getsockname()[1]\<close>: the bound port, 0 for a socket that is not bound.\<close>

definition getsockname_port :: "sock \<Rightarrow> nat" where
  "getsockname_port s = (case bound s of None \<Rightarrow> 0 | Some p \<Rightarrow> p)"

definition sock_close :: "sock \<Rightarrow> sock" where
  "sock_close s = s\<lparr>sock_closed := True\<rparr>"

section \<open>\<^verbatim>\<open>_reserve_port\<close>\<close>

text \<open>
  \<^verbatim>\<open>_reserve_port\<close> is a generator under \<^verbatim>\<open>contextlib.contextmanager\<close>.
  \<open>reserve_port_enter\<close> is the code up to the \<^verbatim>\<open>yield\<close>: it returns what
  the \<^verbatim>\<open>with\<close> statement receives (the yielded pair, or the exception raised
  before the yield), together with the socket object as the code leaves it there
  (\<open>None\<close> when no socket was created).  The \<^verbatim>\<open>except AttributeError\<close>
  clause covers the \<^verbatim>\<open>setsockopt\<close> line only; the \<^verbatim>\<open>bind\<close> line
  stands before the \<^verbatim>\<open>try\<close> whose \<^verbatim>\<open>finally\<close> closes the socket.
\<close>

definition try_setsockopt :: "platform \<Rightarrow> sock \<Rightarrow> py_exception + sock \<times> bool" where
  "try_setsockopt pf s =
     (case setsockopt_SO_REUSEPORT pf s of
        Inr s' \<Rightarrow> Inr (s', True)
      | Inl AttributeError \<Rightarrow> Inr (s, False)
      | Inl e \<Rightarrow> Inl e)"

definition reserve_port_enter :: "platform \<Rightarrow> (py_exception + nat \<times> bool) \<times> sock option" where
  "reserve_port_enter pf =
     (case socket_socket pf of
        Inl e \<Rightarrow> (Inl e, None)
      | Inr s0 \<Rightarrow>
          (case try_setsockopt pf s0 of
             Inl e \<Rightarrow> (Inl e, Some s0)
           | Inr (s1, supported) \<Rightarrow>
               (case sock_bind pf 50051 s1 of
                  Inl e \<Rightarrow> (Inl e, Some s1)
                | Inr s2 \<Rightarrow> (Inr (getsockname_port s2, supported), Some s2))))"

text \<open>The \<^verbatim>\<open>finally\<close> clause around the \<^verbatim>\<open>yield\<close>.\<close>

definition reserve_port_exit :: "sock \<Rightarrow> sock" where
  "reserve_port_exit s = sock_close s"

section \<open>\<^verbatim>\<open>GRPCIngestorActor\<close>\<close>

record redis_info =
  REDIS_HOSTNAME :: string
  REDIS_PORT :: nat
  username :: string
  password :: string

text \<open>
  The \<^verbatim>\<open>grpc.aio\<close> server object an actor owns: its options, the servicers
  registered, the addresses added, and whether \<^verbatim>\<open>start\<close> and
  \<^verbatim>\<open>stop\<close> have been called on it.
\<close>

record grpc_server =
  srv_options :: "(string \<times> nat) list"
  srv_servicers :: nat
  srv_ports :: "string list"
  srv_started :: bool
  srv_stopped :: bool

record actor =
  run :: "bool option"
  bind_address :: string
  actor_redis_info :: redis_info
  server :: grpc_server
  redis_conn :: "string option"

definition grpc_aio_server :: "(string \<times> nat) list \<Rightarrow> grpc_server" where
  "grpc_aio_server opts =
     \<lparr>srv_options = opts, srv_servicers = 0, srv_ports = [], srv_started = False,
      srv_stopped = False\<rparr>"

text \<open>\<^verbatim>\<open>__init__\<close>: \<^verbatim>\<open>redis_conn\<close> is not assigned, hence \<open>None\<close>.\<close>

definition actor_init :: "redis_info \<Rightarrow> string \<Rightarrow> actor" where
  "actor_init ri addr =
     \<lparr>run = None, bind_address = addr, actor_redis_info = ri,
      server = grpc_aio_server [(''grpc.so_reuseport'', 1)], redis_conn = None\<rparr>"

text \<open>Python's \<^verbatim>\<open>str\<close> of a non-negative integer, as the f-string and \<^verbatim>\<open>format\<close> use it.\<close>

fun str_nat :: "nat \<Rightarrow> string" where
  "str_nat n =
     (if n < 10 then [''0123456789'' ! n]
      else str_nat (n div 10) @ [''0123456789'' ! (n mod 10)])"

declare str_nat.simps [simp del]

definition redis_url :: "redis_info \<Rightarrow> string" where
  "redis_url ri = ''redis://'' @ REDIS_HOSTNAME ri @ '':'' @ str_nat (REDIS_PORT ri)"

text \<open>
  What the actor's own process decides for \<^verbatim>\<open>_run_server\<close>: whether
  \<^verbatim>\<open>aioredis.from_url\<close> raises and whether \<^verbatim>\<open>add_insecure_port\<close>
  raises.
\<close>

record actor_env =
  from_url_fails :: bool
  add_port_fails :: bool

text \<open>
  \<^verbatim>\<open>_run_server\<close> up to the point where it raises (\<open>Some e\<close>) or awaits
  \<^verbatim>\<open>server.wait_for_termination()\<close> (\<open>None\<close>), with the actor as it is there.
\<close>

definition run_server :: "actor_env \<Rightarrow> actor \<Rightarrow> py_exception option \<times> actor" where
  "run_server env a =
     (if from_url_fails env then (Some (OtherError ''redis''), a)
      else
        let a1 = a\<lparr>redis_conn := Some (redis_url (actor_redis_info a))\<rparr>;
            a2 = a1\<lparr>server := (server a1)\<lparr>srv_servicers := Suc (srv_servicers (server a1))\<rparr>\<rparr>
        in if add_port_fails env then (Some (OtherError ''add_insecure_port''), a2)
           else
             let a3 = a2\<lparr>server := (server a2)\<lparr>srv_ports := srv_ports (server a2) @ [bind_address a2]\<rparr>\<rparr>;
                 a4 = a3\<lparr>server := (server a3)\<lparr>srv_started := True\<rparr>\<rparr>
             in (None, a4))"

definition start :: "actor_env \<Rightarrow> actor \<Rightarrow> py_exception option \<times> actor" where
  "start env a = run_server env a"

text \<open>
  \<^verbatim>\<open>await self.server.wait_for_termination()\<close> returns once the server has been
  stopped; until then \<^verbatim>\<open>start\<close> stays suspended there and the server serves.
\<close>

definition serving :: "actor \<Rightarrow> bool" where
  "serving a = (srv_started (server a) \<and> \<not> srv_stopped (server a))"

definition stop :: "actor \<Rightarrow> actor" where
  "stop a = a\<lparr>run := Some False\<rparr>"

definition destroy :: "actor \<Rightarrow> actor" where
  "destroy a = a\<lparr>run := Some False\<rparr>"

text \<open>\<^verbatim>\<open>self.server.stop(None)\<close>, the handler of \<^verbatim>\<open>_wait_forever\<close>.\<close>

definition server_stop :: "grpc_server \<Rightarrow> grpc_server" where
  "server_stop g = g\<lparr>srv_stopped := True\<rparr>"

definition wait_forever_interrupted :: "actor \<Rightarrow> actor" where
  "wait_forever_interrupted a = a\<lparr>server := server_stop (server a)\<rparr>"

section \<open>\<^verbatim>\<open>main\<close>\<close>

text \<open>
  The supervisor holds actor handles and dispatches methods with
  \<^verbatim>\<open>.remote()\<close>.  A handle is the actor's index in \<^verbatim>\<open>grpc_ingestors\<close>;
  the dispatch log lists the calls in program order.
\<close>

datatype call = Start nat | Stop nat | Destroy nat

fun is_Stop :: "call \<Rightarrow> bool" where
  "is_Stop (Stop i) = True"
| "is_Stop c = False"

fun is_Destroy :: "call \<Rightarrow> bool" where
  "is_Destroy (Destroy i) = True"
| "is_Destroy c = False"

text \<open>How \<^verbatim>\<open>ray.get(refs)\<close> ends: it returns, or raises some exception.\<close>

datatype wait_outcome = Returned | Raised py_exception

fun ray_get :: "wait_outcome \<Rightarrow> py_exception + unit" where
  "ray_get Returned = Inr ()"
| "ray_get (Raised e) = Inl e"

text \<open>
  The \<^verbatim>\<open>try\<close> / \<^verbatim>\<open>except KeyboardInterrupt\<close> / \<^verbatim>\<open>finally\<close>
  statement over the handles \<open>hs\<close>: the calls dispatched, and whether the statement
  completes or lets an exception through.
\<close>

definition try_start :: "wait_outcome \<Rightarrow> nat list \<Rightarrow> call list \<times> (py_exception + unit)" where
  "try_start w hs = (map Start hs, ray_get w)"

definition except_KeyboardInterrupt ::
  "nat list \<Rightarrow> call list \<times> (py_exception + unit) \<Rightarrow> call list \<times> (py_exception + unit)" where
  "except_KeyboardInterrupt hs st =
     (case snd st of
        Inl KeyboardInterrupt \<Rightarrow> (fst st @ map Stop hs, Inr ())
      | _ \<Rightarrow> st)"

definition finally_destroy ::
  "nat list \<Rightarrow> call list \<times> (py_exception + unit) \<Rightarrow> call list \<times> (py_exception + unit)" where
  "finally_destroy hs st = (fst st @ map Destroy hs, snd st)"

definition supervise :: "wait_outcome \<Rightarrow> nat list \<Rightarrow> call list \<times> (py_exception + unit)" where
  "supervise w hs = finally_destroy hs (except_KeyboardInterrupt hs (try_start w hs))"

record run_result =
  result :: "py_exception + unit"
  probe :: "sock option"
  pool :: "actor list"
  dispatched :: "call list"

text \<open>The body of the \<^verbatim>\<open>with\<close> statement, for the pair the reservation yields.\<close>

definition make_pool :: "redis_info \<Rightarrow> nat \<times> bool \<Rightarrow> actor list" where
  "make_pool ri ps =
     (let bind_address = ''localhost:'' @ str_nat (fst ps)
      in if \<not> snd ps then map (\<lambda>_. actor_init ri bind_address) [0..<1]
         else map (\<lambda>_. actor_init ri bind_address) [0..<2])"

definition with_body ::
  "redis_info \<Rightarrow> wait_outcome \<Rightarrow> nat \<times> bool \<Rightarrow> actor list \<times> call list \<times> (py_exception + unit)" where
  "with_body ri w ps =
     (let grpc_ingestors = make_pool ri ps
      in (grpc_ingestors, supervise w [0..<length grpc_ingestors]))"

definition main :: "platform \<Rightarrow> redis_info \<Rightarrow> wait_outcome \<Rightarrow> run_result" where
  "main pf ri w =
     (case reserve_port_enter pf of
        (Inl e, so) \<Rightarrow> \<lparr>result = Inl e, probe = so, pool = [], dispatched = []\<rparr>
      | (Inr ps, so) \<Rightarrow>
          (case with_body ri w ps of
             (grpc_ingestors, calls, r) \<Rightarrow>
               \<lparr>result = r, probe = map_option reserve_port_exit so,
                pool = grpc_ingestors, dispatched = calls\<rparr>))"

text \<open>
  Every \<^verbatim>\<open>stop\<close> dispatch of a log stands before its first
  \<^verbatim>\<open>destroy\<close> dispatch: nothing after the first \<open>Destroy\<close> is a \<open>Stop\<close>.
\<close>

fun stops_before_destroys :: "call list \<Rightarrow> bool" where
  "stops_before_destroys [] = True"
| "stops_before_destroys (Destroy i # cs) = (filter is_Stop cs = [])"
| "stops_before_destroys (c # cs) = stops_before_destroys cs"

section \<open>Concrete inputs\<close>

definition linux_platform :: platform where
  "linux_platform =
     \<lparr>socket_fails = False, has_SO_REUSEPORT = True, setsockopt_fails = False,
      used_ports = [], ephemeral_port = 49152\<rparr>"

definition windows_platform :: platform where
  "windows_platform =
     \<lparr>socket_fails = False, has_SO_REUSEPORT = False, setsockopt_fails = False,
      used_ports = [], ephemeral_port = 49152\<rparr>"

definition busy_platform :: platform where
  "busy_platform =
     \<lparr>socket_fails = False, has_SO_REUSEPORT = True, setsockopt_fails = False,
      used_ports = [50051], ephemeral_port = 49152\<rparr>"


definition redis0 :: redis_info where
  "redis0 = \<lparr>REDIS_HOSTNAME = ''redis'', REDIS_PORT = 6379, username = ''u'', password = ''p''\<rparr>"

definition env_ok :: actor_env where
  "env_ok = \<lparr>from_url_fails = False, add_port_fails = False\<rparr>"

definition env_no_redis :: actor_env where
  "env_no_redis = \<lparr>from_url_fails = True, add_port_fails = False\<rparr>"

definition actor0 :: actor where
  "actor0 = snd (start env_ok (actor_init redis0 ''localhost:50051''))"

section \<open>Auxiliary facts\<close>

lemma str_nat_50051: "str_nat 50051 = ''50051''"
  by (simp add: str_nat.simps)

lemma supervise_Returned: "supervise Returned hs = (map Start hs @ map Destroy hs, Inr ())"
  by (simp add: supervise_def finally_destroy_def except_KeyboardInterrupt_def try_start_def)

lemma supervise_Interrupt:
  "supervise (Raised KeyboardInterrupt) hs = (map Start hs @ map Stop hs @ map Destroy hs, Inr ())"
  by (simp add: supervise_def finally_destroy_def except_KeyboardInterrupt_def try_start_def)

lemma supervise_Raised:
  "e \<noteq> KeyboardInterrupt \<Longrightarrow> supervise (Raised e) hs = (map Start hs @ map Destroy hs, Inl e)"
  by (cases e) (simp_all add: supervise_def finally_destroy_def except_KeyboardInterrupt_def try_start_def)

lemma filter_Destroy_Start: "filter is_Destroy (map Start hs) = []"
  by (induction hs) simp_all

lemma filter_Destroy_Stop: "filter is_Destroy (map Stop hs) = []"
  by (induction hs) simp_all

lemma filter_Destroy_Destroy: "filter is_Destroy (map Destroy hs) = map Destroy hs"
  by (induction hs) simp_all

lemma supervise_destroys: "filter is_Destroy (fst (supervise w hs)) = map Destroy hs"
proof (cases w)
  case Returned
  then show ?thesis
    by (simp add: supervise_Returned filter_Destroy_Start filter_Destroy_Destroy)
next
  case (Raised e)
  show ?thesis
  proof (cases "e = KeyboardInterrupt")
    case True
    with Raised show ?thesis
      by (simp add: supervise_Interrupt filter_Destroy_Start filter_Destroy_Stop filter_Destroy_Destroy)
  next
    case False
    with Raised show ?thesis
      by (simp add: supervise_Raised filter_Destroy_Start filter_Destroy_Stop filter_Destroy_Destroy)
  qed
qed

lemma main_fail:
  "reserve_port_enter pf = (Inl e, so) \<Longrightarrow>
   main pf ri w = \<lparr>result = Inl e, probe = so, pool = [], dispatched = []\<rparr>"
  by (simp add: main_def)

lemma main_ok:
  "reserve_port_enter pf = (Inr ps, so) \<Longrightarrow>
   main pf ri w =
     \<lparr>result = snd (supervise w [0..<length (make_pool ri ps)]),
      probe = map_option reserve_port_exit so,
      pool = make_pool ri ps,
      dispatched = fst (supervise w [0..<length (make_pool ri ps)])\<rparr>"
  by (simp add: main_def with_body_def Let_def split: prod.splits)

lemma supervise_nil: "fst (supervise w []) = []"
  by (cases w) (simp_all add: supervise_def finally_destroy_def except_KeyboardInterrupt_def
      try_start_def split: sum.splits py_exception.splits)

lemma main_dispatched:
  "dispatched (main pf ri w) = fst (supervise w [0..<length (pool (main pf ri w))])"
proof (cases "reserve_port_enter pf")
  case (Pair r so)
  show ?thesis
  proof (cases r)
    case (Inl e)
    with Pair show ?thesis by (simp add: main_fail supervise_nil)
  next
    case (Inr ps)
    with Pair show ?thesis by (simp add: main_ok)
  qed
qed

lemma count_list_filter: "P x \<Longrightarrow> count_list (filter P xs) x = count_list xs x"
  by (induction xs) auto

lemma count_list_map_Destroy: "distinct hs \<Longrightarrow> i \<in> set hs \<Longrightarrow> count_list (map Destroy hs) (Destroy i) = 1"
  by (induction hs) (auto simp: count_list_0_iff)

section \<open>Claims\<close>

text \<open>
  C1.  However \<^verbatim>\<open>ray.get(refs)\<close> ends (it returns, it raises KeyboardInterrupt, or
  it raises anything else), \<^verbatim>\<open>main\<close> dispatches \<^verbatim>\<open>destroy\<close> on every
  actor it constructed, exactly once per actor: the \<open>Destroy\<close> entries of the dispatch
  log are one per handle, in pool order, and each handle's entry occurs once.
\<close>

theorem destroy_dispatched_once:
  "filter is_Destroy (dispatched (main pf ri w)) = map Destroy [0..<length (pool (main pf ri w))]
   \<and> (\<forall>i < length (pool (main pf ri w)). count_list (dispatched (main pf ri w)) (Destroy i) = 1)"
proof -
  let ?r = "main pf ri w"
  have eq: "filter is_Destroy (dispatched ?r) = map Destroy [0..<length (pool ?r)]"
    by (simp only: main_dispatched supervise_destroys)
  have "count_list (dispatched ?r) (Destroy i) = 1" if "i < length (pool ?r)" for i
  proof -
    have "count_list (dispatched ?r) (Destroy i) = count_list (filter is_Destroy (dispatched ?r)) (Destroy i)"
      by (simp add: count_list_filter)
    also have "\<dots> = 1"
      using that by (simp only: eq) (simp add: count_list_map_Destroy)
    finally show ?thesis .
  qed
  with eq show ?thesis by blast
qed

lemma reserve_linux:
  "reserve_port_enter linux_platform =
     (Inr (50051, True), Some \<lparr>so_reuseport = True, bound = Some 50051, sock_closed = False\<rparr>)"
  by (simp add: reserve_port_enter_def socket_socket_def try_setsockopt_def
      setsockopt_SO_REUSEPORT_def sock_bind_def getsockname_port_def linux_platform_def)

lemma reserve_windows:
  "reserve_port_enter windows_platform =
     (Inr (50051, False), Some \<lparr>so_reuseport = False, bound = Some 50051, sock_closed = False\<rparr>)"
  by (simp add: reserve_port_enter_def socket_socket_def try_setsockopt_def
      setsockopt_SO_REUSEPORT_def sock_bind_def getsockname_port_def windows_platform_def)

lemma reserve_busy:
  "reserve_port_enter busy_platform =
     (Inl OSError, Some \<lparr>so_reuseport = True, bound = None, sock_closed = False\<rparr>)"
  by (simp add: reserve_port_enter_def socket_socket_def try_setsockopt_def
      setsockopt_SO_REUSEPORT_def sock_bind_def getsockname_port_def busy_platform_def)

lemma make_pool_eq:
  "make_pool ri (p, s) =
     (if s then [actor_init ri (''localhost:'' @ str_nat p), actor_init ri (''localhost:'' @ str_nat p)]
      else [actor_init ri (''localhost:'' @ str_nat p)])"
proof -
  have two: "[0..<2] = [0, Suc 0]" and one: "[0..<1] = [0]"
    by (simp_all add: upt_rec)
  show ?thesis
    by (simp add: make_pool_def Let_def two one)
qed

lemma length_make_pool: "length (make_pool ri (p, s)) = (if s then 2 else 1)"
  by (simp add: make_pool_eq)

lemma set_make_pool: "set (make_pool ri (p, s)) = {actor_init ri (''localhost:'' @ str_nat p)}"
  by (simp add: make_pool_eq)




theorem destroy_dispatched_once_witness:
  "1 < length (pool (main linux_platform redis0 (Raised (OtherError ''lost''))))
   \<and> count_list (dispatched (main linux_platform redis0 (Raised (OtherError ''lost'')))) (Destroy 1) = 1"
proof -
  have len: "length (pool (main linux_platform redis0 (Raised (OtherError ''lost'')))) = 2"
    by (simp add: main_ok [OF reserve_linux] length_make_pool)
  with destroy_dispatched_once [of linux_platform redis0 "Raised (OtherError ''lost'')"] show ?thesis
    by simp
qed

lemma probe_closed_after_yield:
  "reserve_port_enter pf = (Inr ps, so) \<Longrightarrow>
   \<exists>s. probe (main pf ri w) = Some s \<and> sock_closed s"
  by (auto simp add: main_ok reserve_port_enter_def reserve_port_exit_def sock_close_def
      split: sum.splits prod.splits)

text \<open>
  C2.  The probe socket is to be closed on every exit path of \<^verbatim>\<open>_reserve_port\<close>,
  a failing \<^verbatim>\<open>bind\<close> included.  Evaluated on a host where port 50051 is taken:
  \<^verbatim>\<open>bind\<close> raises OSError before the \<^verbatim>\<open>try\<close> / \<^verbatim>\<open>finally\<close> is entered,
  so \<^verbatim>\<open>sock.close()\<close> is never called and the socket object is left open
  (lemma \<open>probe_closed_after_yield\<close> above is the part that does hold: once the
  \<^verbatim>\<open>yield\<close> is reached, the socket is closed however the body ends).
\<close>

theorem bind_failure_leaves_probe_open:
  "reserve_port_enter busy_platform =
     (Inl OSError, Some \<lparr>so_reuseport = True, bound = None, sock_closed = False\<rparr>)
   \<and> result (main busy_platform redis0 Returned) = Inl OSError
   \<and> probe (main busy_platform redis0 Returned) =
       Some \<lparr>so_reuseport = True, bound = None, sock_closed = False\<rparr>"
  by (simp add: main_fail [OF reserve_busy] reserve_busy)

text \<open>
  C3.  For every pair (port, supported) that the reservation yields, the pool has one
  actor when \<open>supported\<close> is false and two when it is true, every actor of the pool is
  constructed with the bind address \<^verbatim>\<open>'localhost:' + str(port)\<close>, and this pool is
  the pool of \<^verbatim>\<open>main\<close> whenever the reservation yields that pair.
\<close>

theorem pool_size_and_bind_address:
  "length (make_pool ri (port, supported)) = (if supported then 2 else 1)
   \<and> (\<forall>a \<in> set (make_pool ri (port, supported)). bind_address a = ''localhost:'' @ str_nat port)
   \<and> (fst (reserve_port_enter pf) = Inr (port, supported) \<longrightarrow>
        pool (main pf ri w) = make_pool ri (port, supported))"
proof -
  have "pool (main pf ri w) = make_pool ri (port, supported)"
    if "fst (reserve_port_enter pf) = Inr (port, supported)"
  proof -
    from that obtain so where "reserve_port_enter pf = (Inr (port, supported), so)"
      by (cases "reserve_port_enter pf") simp
    then show ?thesis by (simp add: main_ok)
  qed
  then show ?thesis
    by (simp add: length_make_pool set_make_pool actor_init_def)
qed

theorem pool_size_and_bind_address_witness:
  "fst (reserve_port_enter linux_platform) = Inr (50051, True)
   \<and> length (pool (main linux_platform redis0 Returned)) = 2
   \<and> map bind_address (pool (main linux_platform redis0 Returned)) =
       [''localhost:50051'', ''localhost:50051'']"
proof -
  have h: "fst (reserve_port_enter linux_platform) = Inr (50051, True)"
    by (simp add: reserve_linux)
  from pool_size_and_bind_address [of redis0 50051 True linux_platform Returned] h
  show ?thesis by (simp add: make_pool_eq str_nat_50051 actor_init_def)
qed




lemma actor0_eq:
  "actor0 =
     \<lparr>run = None, bind_address = ''localhost:50051'', actor_redis_info = redis0,
      server = \<lparr>srv_options = [(''grpc.so_reuseport'', 1)], srv_servicers = 1,
                srv_ports = [''localhost:50051''], srv_started = True, srv_stopped = False\<rparr>,
      redis_conn = Some ''redis://redis:6379''\<rparr>"
  by (simp add: actor0_def start_def run_server_def env_ok_def actor_init_def grpc_aio_server_def
      redis_url_def redis0_def Let_def str_nat.simps)

text \<open>
  C5.  \<^verbatim>\<open>stop()\<close> on a serving actor is to make its server stop accepting work.
  Evaluated on \<open>actor0\<close>, an actor suspended in \<^verbatim>\<open>wait_for_termination\<close>:
  \<^verbatim>\<open>stop\<close> leaves the server object as it was, still serving, whereas the handler of
  \<^verbatim>\<open>_wait_forever\<close> (\<^verbatim>\<open>self.server.stop(None)\<close>) ends the serving.
\<close>

theorem stop_leaves_server_serving:
  "serving actor0 \<and> server (stop actor0) = server actor0 \<and> serving (stop actor0)
   \<and> \<not> serving (wait_forever_interrupted actor0)"
  by (simp add: actor0_eq serving_def stop_def wait_forever_interrupted_def server_stop_def)

text \<open>
  C6.  \<^verbatim>\<open>destroy()\<close> is to release the listener and the Redis connection.
  Evaluated on \<open>actor0\<close>: after \<^verbatim>\<open>destroy\<close> the Redis connection is still held,
  the address is still bound, the server still serves, and the actor is exactly what
  \<^verbatim>\<open>stop\<close> leaves.
\<close>

theorem destroy_releases_nothing:
  "redis_conn (destroy actor0) = Some ''redis://redis:6379''
   \<and> srv_ports (server (destroy actor0)) = [''localhost:50051'']
   \<and> serving (destroy actor0)
   \<and> destroy actor0 = stop actor0"
  by (simp add: actor0_eq serving_def stop_def destroy_def)

lemma sbd_Start: "stops_before_destroys (map Start hs @ cs) = stops_before_destroys cs"
  by (induction hs) simp_all

lemma sbd_Stop: "stops_before_destroys (map Stop hs @ cs) = stops_before_destroys cs"
  by (induction hs) simp_all

lemma filter_Stop_Destroy: "filter is_Stop (map Destroy hs) = []"
  by (induction hs) simp_all

lemma filter_Stop_Start: "filter is_Stop (map Start hs) = []"
  by (induction hs) simp_all

lemma filter_Stop_Stop: "filter is_Stop (map Stop hs) = map Stop hs"
  by (induction hs) simp_all

lemma sbd_Destroy: "stops_before_destroys (map Destroy hs)"
  by (cases hs) (simp_all add: filter_Stop_Destroy)

text \<open>
  C7.  When \<^verbatim>\<open>ray.get(refs)\<close> raises KeyboardInterrupt (the reservation having
  yielded, so that the wait is reached), \<^verbatim>\<open>main\<close> dispatches \<^verbatim>\<open>start\<close> on every
  actor, then \<^verbatim>\<open>stop\<close> on every actor, then \<^verbatim>\<open>destroy\<close> on every actor: no
  \<^verbatim>\<open>stop\<close> follows a \<^verbatim>\<open>destroy\<close>, the pool is not empty, and \<^verbatim>\<open>main\<close>
  returns without raising.
\<close>

theorem interrupt_stop_then_destroy:
  assumes "fst (reserve_port_enter pf) = Inr ps"
  shows "dispatched (main pf ri (Raised KeyboardInterrupt)) =
           map Start [0..<length (pool (main pf ri (Raised KeyboardInterrupt)))]
           @ map Stop [0..<length (pool (main pf ri (Raised KeyboardInterrupt)))]
           @ map Destroy [0..<length (pool (main pf ri (Raised KeyboardInterrupt)))]
         \<and> stops_before_destroys (dispatched (main pf ri (Raised KeyboardInterrupt)))
         \<and> pool (main pf ri (Raised KeyboardInterrupt)) \<noteq> []
         \<and> result (main pf ri (Raised KeyboardInterrupt)) = Inr ()"
proof -
  from assms obtain so where e: "reserve_port_enter pf = (Inr ps, so)"
    by (cases "reserve_port_enter pf") simp
  have ne: "make_pool ri ps \<noteq> []"
    by (cases ps) (simp add: make_pool_eq)
  show ?thesis
    by (simp add: main_ok [OF e] supervise_Interrupt sbd_Start sbd_Stop sbd_Destroy ne)
qed

theorem interrupt_stop_then_destroy_witness:
  "fst (reserve_port_enter linux_platform) = Inr (50051, True)
   \<and> dispatched (main linux_platform redis0 (Raised KeyboardInterrupt)) =
       [Start 0, Start 1, Stop 0, Stop 1, Destroy 0, Destroy 1]
   \<and> result (main linux_platform redis0 (Raised KeyboardInterrupt)) = Inr ()"
proof -
  have h: "fst (reserve_port_enter linux_platform) = Inr (50051, True)"
    by (simp add: reserve_linux)
  have len: "length (pool (main linux_platform redis0 (Raised KeyboardInterrupt))) = 2"
    by (simp add: main_ok [OF reserve_linux] length_make_pool)
  have up: "[0..<2] = [0, Suc 0]"
    by (simp add: upt_rec)
  from interrupt_stop_then_destroy [OF h, of redis0] h show ?thesis
    by (simp add: len up)
qed




text \<open>
  C9.  \<^verbatim>\<open>stop\<close> is idempotent: a second \<^verbatim>\<open>stop\<close> changes nothing, a
  \<^verbatim>\<open>stop\<close> after \<^verbatim>\<open>destroy\<close> changes nothing, and on any actor whose
  \<^verbatim>\<open>run\<close> is already False \<^verbatim>\<open>stop\<close> is the identity.  (The method body is one
  assignment and has no raising statement, so the model has no error result.)
\<close>

theorem stop_idempotent:
  "stop (stop a) = stop a \<and> stop (destroy a) = destroy a
   \<and> (run a = Some False \<longrightarrow> stop a = a)"
  by (simp add: stop_def destroy_def)

theorem stop_idempotent_witness:
  "run (destroy actor0) = Some False \<and> stop (destroy actor0) = destroy actor0
   \<and> stop (stop actor0) = stop actor0"
proof -
  have h: "run (destroy actor0) = Some False"
    by (simp add: destroy_def)
  from stop_idempotent [of "destroy actor0"] stop_idempotent [of actor0] h show ?thesis
    by simp
qed

text \<open>
  C10.  \<^verbatim>\<open>stop\<close> and \<^verbatim>\<open>destroy\<close> change the field \<^verbatim>\<open>run\<close> only: the
  server object, the Redis connection and the bind address are as before, an actor
  serves afterwards exactly if it served before, and an actor that \<^verbatim>\<open>start\<close> has
  brought to \<^verbatim>\<open>wait_for_termination\<close> is still serving after either call.
\<close>

theorem stop_destroy_frame:
  "stop a = a\<lparr>run := Some False\<rparr> \<and> destroy a = a\<lparr>run := Some False\<rparr>
   \<and> server (stop a) = server a \<and> server (destroy a) = server a
   \<and> redis_conn (stop a) = redis_conn a \<and> redis_conn (destroy a) = redis_conn a
   \<and> bind_address (stop a) = bind_address a \<and> bind_address (destroy a) = bind_address a
   \<and> serving (stop a) = serving a \<and> serving (destroy a) = serving a
   \<and> (start env (actor_init ri addr) = (None, a) \<longrightarrow>
        serving a \<and> serving (stop a) \<and> serving (destroy a))"
  by (auto simp add: stop_def destroy_def serving_def start_def run_server_def actor_init_def
      grpc_aio_server_def Let_def split: if_splits)

theorem stop_destroy_frame_witness:
  "start env_ok (actor_init redis0 ''localhost:50051'') = (None, actor0)
   \<and> serving actor0 \<and> serving (stop actor0) \<and> serving (destroy actor0)"
proof -
  have h: "start env_ok (actor_init redis0 ''localhost:50051'') = (None, actor0)"
    by (simp add: actor0_def start_def run_server_def env_ok_def Let_def)
  from stop_destroy_frame [of actor0 env_ok redis0 "''localhost:50051''"] h show ?thesis
    by blast
qed

end
